theory Spec2Isabelle
  imports Main
begin

section \<open>Values read from and written to JSON files\<close>

text \<open>
  What \<^verbatim>\<open>json.load\<close> returns and \<^verbatim>\<open>json.dump\<close> accepts: \<^verbatim>\<open>None\<close>, a bool, a number,
  a string, a list or a dict. A dict is kept as the list of its items in insertion order
  (the parser has already resolved repeated keys, so keys are distinct for a loaded value).
  Numbers are kept as integers: the code below never computes with a loaded number, and a
  float takes the same branches as an integer. Printing is left out of the model throughout.
\<close>

datatype json =
    JNull
  | JBool bool
  | JNum int
  | JStr string
  | JList "json list"
  | JObj "(string \<times> json) list"

text \<open>\<^verbatim>\<open>isinstance(v, list)\<close>.\<close>

fun isinstance_list :: "json \<Rightarrow> bool" where
  "isinstance_list (JList xs) = True"
| "isinstance_list v = False"

text \<open>
  \<^verbatim>\<open>isinstance(v, dict) and k in v\<close> followed by \<^verbatim>\<open>v[k]\<close>: \<open>Some\<close> the value under
  the key when the test succeeds, \<open>None\<close> when it fails.
\<close>

fun dict_lookup :: "json \<Rightarrow> string \<Rightarrow> json option" where
  "dict_lookup (JObj kvs) k = map_of kvs k"
| "dict_lookup v k = None"

text \<open>\<^verbatim>\<open>s.endswith(t)\<close>.\<close>

definition endswith :: "string \<Rightarrow> string \<Rightarrow> bool" where
  "endswith s t = (length t \<le> length s \<and> drop (length s - length t) s = t)"

text \<open>
  \<^verbatim>\<open>len(v)\<close> and \<^verbatim>\<open>for x in v\<close> on a loaded value: a list gives its elements, a string
  its characters (one-character strings), a dict its keys; \<^verbatim>\<open>len\<close> of \<^verbatim>\<open>None\<close>, a bool or
  a number raises \<^verbatim>\<open>TypeError\<close> (\<open>None\<close> here).
\<close>

fun py_elements :: "json \<Rightarrow> json list option" where
  "py_elements (JList xs) = Some xs"
| "py_elements (JStr s) = Some (map (\<lambda>c. JStr [c]) s)"
| "py_elements (JObj kvs) = Some (map (\<lambda>kv. JStr (fst kv)) kvs)"
| "py_elements v = None"

section \<open>The Processor: \<^verbatim>\<open>rag_docling_component\<close>\<close>

subsection \<open>The outside world\<close>

text \<open>
  The result of \<^verbatim>\<open>open(document_path)\<close> and \<^verbatim>\<open>json.load(f)\<close>: a value, the
  \<^verbatim>\<open>json.JSONDecodeError\<close> the source catches, or any other exception (an I/O or decoding
  error), which the source lets through.
\<close>

datatype load_result = Loaded json | JSONDecodeError | LoadRaises string

text \<open>
  Labels of docling's \<^verbatim>\<open>DocItemLabel\<close>: the two the source names, and every other member
  of the enumeration by its value.
\<close>

datatype DocItemLabel = TEXT | PARAGRAPH | OtherLabel string

record doc_item =
  label :: DocItemLabel
  self_ref :: string

text \<open>A chunk: \<^verbatim>\<open>chunk.text\<close> and \<^verbatim>\<open>chunk.meta.doc_items\<close>.\<close>

record chunk =
  chunk_text :: string
  doc_items :: "doc_item list"

text \<open>
  What \<^verbatim>\<open>converter.convert(source=file_path).document\<close> and the iteration over
  \<^verbatim>\<open>chunker.chunk(docling_doc)\<close> do for one document: the conversion raises, or the
  (lazy, finite) chunk sequence yields some chunks and then ends, normally (\<open>None\<close>) or
  with an exception raised inside the loop (\<open>Some\<close> its message). The chunks listed are
  those for which the body of the loop has run to its end. An exception is an instance of
  \<^verbatim>\<open>Exception\<close>, which the handler of the source catches.
\<close>

datatype conversion = ConvertRaises string | Chunked "chunk list" "string option"

text \<open>A remote call returns (\<open>None\<close>) or raises an \<^verbatim>\<open>Exception\<close> (\<open>Some\<close> its message).\<close>

type_synonym call_result = "string option"

record LlamaStackDocument =
  document_id :: string
  content :: string
  mime_type :: string
  metadata :: "(string \<times> json) list"

text \<open>The two remote calls of the client, with their keyword arguments.\<close>

datatype call =
    Register string string int string
      \<comment> \<open>\<^verbatim>\<open>vector_db_id\<close>, \<^verbatim>\<open>embedding_model\<close>, \<^verbatim>\<open>embedding_dimension\<close>, \<^verbatim>\<open>provider_id\<close>\<close>
  | Insert "LlamaStackDocument list" string int
      \<comment> \<open>\<^verbatim>\<open>documents\<close>, \<^verbatim>\<open>vector_db_id\<close>, \<^verbatim>\<open>chunk_size_in_tokens\<close>\<close>

record env =
  os_path_isfile :: "string \<Rightarrow> bool"
  load_json :: "string \<Rightarrow> load_result"
  convert :: "json \<Rightarrow> conversion"
  remote :: "call \<Rightarrow> call_result"

record args =
  document_path :: string
  metrics_path :: string
  llama_stack_url :: string
  embedding_model :: string
  embedding_dimension :: int
  provider_id :: string
  vector_db_id :: string

subsection \<open>Step 2: the document list\<close>

text \<open>The \<^verbatim>\<open>if\<close>/\<^verbatim>\<open>elif\<close> chain on the loaded manifest, in the source's order.\<close>

definition manifest_documents :: "json \<Rightarrow> string \<Rightarrow> json" where
  "manifest_documents file_data path =
     (if isinstance_list file_data then file_data
      else case dict_lookup file_data ''document_paths'' of
        Some v \<Rightarrow> v
      | None \<Rightarrow>
          (case dict_lookup file_data ''documents'' of
            Some v \<Rightarrow> v
          | None \<Rightarrow> JList [JStr path]))"

datatype exn = TypeError | ValueError string | FileNotFoundError string | Uncaught string

text \<open>
  The value of the variable \<^verbatim>\<open>documents\<close> after step 2, or the exception that leaves
  the function there.
\<close>

definition resolve_documents :: "env \<Rightarrow> string \<Rightarrow> exn + json" where
  "resolve_documents e path =
     (if os_path_isfile e path then
        (if endswith path ''.json'' then
           (case load_json e path of
              Loaded file_data \<Rightarrow> Inr (manifest_documents file_data path)
            | JSONDecodeError \<Rightarrow> Inr (JList [JStr path])
            | LoadRaises msg \<Rightarrow> Inl (Uncaught msg))
         else Inr (JList [JStr path]))
      else Inr (JList []))"

subsection \<open>Step 3: conversion, chunking and the Chunk Records\<close>

text \<open>\<^verbatim>\<open>str(i)\<close> for a counter that starts at 0 and is only incremented: its decimal digits.\<close>

definition digit_char :: "nat \<Rightarrow> char" where
  "digit_char d = char_of (48 + d)"

fun str_nat :: "nat \<Rightarrow> string" where
  "str_nat n = (if n < 10 then [digit_char n] else str_nat (n div 10) @ [digit_char (n mod 10)])"

declare str_nat.simps [simp del]

text \<open>
  The test of the inner loop:
  \<^verbatim>\<open>any(c.label in [DocItemLabel.TEXT, DocItemLabel.PARAGRAPH] for c in chunk.meta.doc_items)\<close>.
\<close>

definition has_text_item :: "chunk \<Rightarrow> bool" where
  "has_text_item ch = list_ex (\<lambda>c. label c \<in> set [TEXT, PARAGRAPH]) (doc_items ch)"

text \<open>The \<^verbatim>\<open>LlamaStackDocument(...)\<close> built for a retained chunk, \<open>n\<close> being the value of \<^verbatim>\<open>i\<close>.\<close>

definition make_document :: "nat \<Rightarrow> chunk \<Rightarrow> json \<Rightarrow> LlamaStackDocument" where
  "make_document n ch file_path =
     \<lparr>document_id = ''doc-'' @ str_nat n,
      content = chunk_text ch,
      mime_type = ''text/plain'',
      metadata = [(''source'', file_path)]\<rparr>"

text \<open>
  The variables the loop over the documents updates: the list \<^verbatim>\<open>llama_documents\<close>, the
  counter \<^verbatim>\<open>i\<close>, and the two lists of \<^verbatim>\<open>processing_metrics\<close>. An entry of
  \<^verbatim>\<open>processed_documents\<close> is \<^verbatim>\<open>{"file": f, "chunks": n}\<close>, one of
  \<^verbatim>\<open>failed_documents\<close> is \<^verbatim>\<open>{"file": f, "error": msg}\<close>.
\<close>

record loop_state =
  llama_documents :: "LlamaStackDocument list"
  counter_i :: nat
  processed_documents :: "(json \<times> nat) list"
  failed_documents :: "(json \<times> string) list"

text \<open>
  \<^verbatim>\<open>for chunk in chunks\<close>: the state and \<^verbatim>\<open>chunk_count\<close> after the chunks the sequence
  yields.
\<close>

fun chunk_loop :: "json \<Rightarrow> chunk list \<Rightarrow> loop_state \<times> nat \<Rightarrow> loop_state \<times> nat" where
  "chunk_loop file_path [] (s, chunk_count) = (s, chunk_count)"
| "chunk_loop file_path (ch # chunks) (s, chunk_count) =
     (if has_text_item ch then
        chunk_loop file_path chunks
          (s\<lparr>counter_i := counter_i s + 1,
             llama_documents :=
               llama_documents s @ [make_document (counter_i s + 1) ch file_path]\<rparr>,
           chunk_count + 1)
      else chunk_loop file_path chunks (s, chunk_count))"

text \<open>
  The body of \<^verbatim>\<open>for file_path in documents\<close>: the \<^verbatim>\<open>try\<close> block and its
  \<^verbatim>\<open>except Exception\<close> handler. An exception raised while the chunks are iterated
  leaves the records already appended and the counter as they are.
\<close>

definition process_document :: "env \<Rightarrow> json \<Rightarrow> loop_state \<Rightarrow> loop_state" where
  "process_document e file_path s =
     (case convert e file_path of
        ConvertRaises msg \<Rightarrow>
          s\<lparr>failed_documents := failed_documents s @ [(file_path, msg)]\<rparr>
      | Chunked chunks ending \<Rightarrow>
          (case chunk_loop file_path chunks (s, 0) of
             (s', chunk_count) \<Rightarrow>
               (case ending of
                  None \<Rightarrow>
                    s'\<lparr>processed_documents :=
                         processed_documents s' @ [(file_path, chunk_count)]\<rparr>
                | Some msg \<Rightarrow>
                    s'\<lparr>failed_documents := failed_documents s' @ [(file_path, msg)]\<rparr>)))"

fun process_documents :: "env \<Rightarrow> json list \<Rightarrow> loop_state \<Rightarrow> loop_state" where
  "process_documents e [] s = s"
| "process_documents e (file_path # documents) s =
     process_documents e documents (process_document e file_path s)"

definition initial_state :: loop_state where
  "initial_state =
     \<lparr>llama_documents = [], counter_i = 0, processed_documents = [], failed_documents = []\<rparr>"

subsection \<open>Steps 4 and 5, the metrics and the result\<close>

text \<open>The value stored under \<^verbatim>\<open>vector_db_registration\<close> and \<^verbatim>\<open>vector_db_insertion\<close>.\<close>

datatype call_status = Success | Failed string

fun status_of :: "call_result \<Rightarrow> call_status" where
  "status_of None = Success"
| "status_of (Some msg) = Failed msg"

text \<open>The dict \<^verbatim>\<open>processing_metrics\<close> as it is when it is written.\<close>

record processing_metrics =
  document_count :: nat
  metrics_processed :: "(json \<times> nat) list"
  metrics_failed :: "(json \<times> string) list"
  total_chunks :: nat
  vector_db_registration :: call_status
  vector_db_insertion :: call_status

text \<open>
  What a run leaves behind: the value returned or the exception raised, the remote calls
  made, each with its result, and the files written with \<^verbatim>\<open>json.dump\<close>, both in order.
\<close>

record run =
  returned :: "exn + nat"
  calls :: "(call \<times> call_result) list"
  files_written :: "(string \<times> processing_metrics) list"

definition register_call :: "args \<Rightarrow> call" where
  "register_call a =
     Register (vector_db_id a) (embedding_model a) (embedding_dimension a) (provider_id a)"

definition insert_call :: "args \<Rightarrow> LlamaStackDocument list \<Rightarrow> call" where
  "insert_call a docs = Insert docs (vector_db_id a) 512"

text \<open>
  The function from step 3 on, for the elements of \<^verbatim>\<open>documents\<close>: the loop, the two
  remote calls in their \<^verbatim>\<open>try\<close> blocks, the write of the metrics, the return.
\<close>

definition ingest :: "env \<Rightarrow> args \<Rightarrow> json list \<Rightarrow> run" where
  "ingest e a documents =
     (let s = process_documents e documents initial_state;
          total = length (llama_documents s);
          registration = remote e (register_call a);
          insertion = remote e (insert_call a (llama_documents s));
          processing_metrics =
            \<lparr>document_count = length documents,
             metrics_processed = processed_documents s,
             metrics_failed = failed_documents s,
             total_chunks = total,
             vector_db_registration = status_of registration,
             vector_db_insertion = status_of insertion\<rparr>
      in \<lparr>returned = Inr total,
          calls = [(register_call a, registration),
                   (insert_call a (llama_documents s), insertion)],
          files_written = [(metrics_path a, processing_metrics)]\<rparr>)"

definition raises :: "exn \<Rightarrow> run" where
  "raises x = \<lparr>returned = Inl x, calls = [], files_written = []\<rparr>"

definition rag_docling_component :: "env \<Rightarrow> args \<Rightarrow> run" where
  "rag_docling_component e a =
     (case resolve_documents e (document_path a) of
        Inl x \<Rightarrow> raises x
      | Inr v \<Rightarrow>
          (case py_elements v of
             None \<Rightarrow> raises TypeError
           | Some documents \<Rightarrow> ingest e a documents))"

section \<open>The script: \<^verbatim>\<open>process_documents_to_vectordb\<close>\<close>

text \<open>
  The script runs the same conversion loop on a list of paths it is given, keeps no
  metrics, and returns \<^verbatim>\<open>len(llama_documents)\<close>. Its state is \<^verbatim>\<open>llama_documents\<close> and
  \<^verbatim>\<open>i\<close>.
\<close>

fun script_chunk_loop ::
  "json \<Rightarrow> chunk list \<Rightarrow> LlamaStackDocument list \<times> nat \<Rightarrow> LlamaStackDocument list \<times> nat" where
  "script_chunk_loop file_path [] (docs, n) = (docs, n)"
| "script_chunk_loop file_path (ch # chunks) (docs, n) =
     (if has_text_item ch then
        script_chunk_loop file_path chunks
          (docs @ [make_document (n + 1) ch file_path], n + 1)
      else script_chunk_loop file_path chunks (docs, n))"

text \<open>
  The handler of the script only prints, so a conversion that raises and a chunk
  sequence that ends with an exception both leave the state where it is.
\<close>

definition script_document ::
  "env \<Rightarrow> json \<Rightarrow> LlamaStackDocument list \<times> nat \<Rightarrow> LlamaStackDocument list \<times> nat" where
  "script_document e file_path st =
     (case convert e file_path of
        ConvertRaises msg \<Rightarrow> st
      | Chunked chunks ending \<Rightarrow> script_chunk_loop file_path chunks st)"

fun script_documents ::
  "env \<Rightarrow> json list \<Rightarrow> LlamaStackDocument list \<times> nat \<Rightarrow> LlamaStackDocument list \<times> nat" where
  "script_documents e [] st = st"
| "script_documents e (file_path # documents) st =
     script_documents e documents (script_document e file_path st)"

record script_run =
  script_returned :: nat
  script_calls :: "(call \<times> call_result) list"

definition process_documents_to_vectordb :: "env \<Rightarrow> args \<Rightarrow> json list \<Rightarrow> script_run" where
  "process_documents_to_vectordb e a documents =
     (let docs = fst (script_documents e documents ([], 0))
      in \<lparr>script_returned = length docs,
          script_calls = [(register_call a, remote e (register_call a)),
                          (insert_call a docs, remote e (insert_call a docs))]\<rparr>)"

section \<open>The Provider: \<^verbatim>\<open>s3_document_provider\<close>\<close>

text \<open>
  \<^verbatim>\<open>str.lower\<close> on the ASCII letters (a character is a byte here; the letters outside
  ASCII, which Python's \<^verbatim>\<open>lower\<close> also maps, are left as they are).
\<close>

definition lower_char :: "char \<Rightarrow> char" where
  "lower_char c =
     (let n = (of_char c :: nat) in if 65 \<le> n \<and> n \<le> 90 then char_of (n + 32) else c)"

definition lower :: "string \<Rightarrow> string" where
  "lower s = map lower_char s"

text \<open>\<^verbatim>\<open>os.path.basename\<close> and \<^verbatim>\<open>os.path.join\<close> of two parts, on POSIX paths.\<close>

definition os_path_basename :: "string \<Rightarrow> string" where
  "os_path_basename p = rev (takeWhile (\<lambda>c. c \<noteq> CHR ''/'') (rev p))"

definition os_path_join :: "string \<Rightarrow> string \<Rightarrow> string" where
  "os_path_join a b =
     (if take 1 b = ''/'' then b
      else if a = [] \<or> endswith a ''/'' then a @ b
      else a @ ''/'' @ b)"

text \<open>
  An entry of a page's \<^verbatim>\<open>Contents\<close>; \<open>LastModified\<close> holds what
  \<^verbatim>\<open>obj['LastModified'].isoformat()\<close> gives (a listing of the bucket store carries the
  three keys for every object). A page is \<open>None\<close> when it has no \<^verbatim>\<open>Contents\<close> key.
\<close>

record s3_object =
  Key :: string
  Size :: int
  LastModified :: string

type_synonym page = "s3_object list option"

text \<open>
  The bucket store and the local disk as the Provider meets them. \<open>paginate\<close> gives the
  pages the paginator yields for a bucket and a prefix, and \<open>paginate_raises\<close> the exception,
  if any, that it raises when it is asked for the page after the last of them.
  \<open>os_makedirs\<close> and \<open>boto3_client\<close> are the two steps before the listing, each of which
  returns or raises.
\<close>

record provider_env =
  paginate :: "string \<Rightarrow> string \<Rightarrow> page list"
  download_file :: "string \<Rightarrow> string \<Rightarrow> string \<Rightarrow> call_result"
  os_makedirs :: "string \<Rightarrow> call_result"
  boto3_client :: "string \<Rightarrow> string \<Rightarrow> string \<Rightarrow> call_result"
  paginate_raises :: "string \<Rightarrow> string \<Rightarrow> call_result"

record provider_args =
  output_path :: string
  bucket_name :: string
  minio_endpoint :: string
  minio_access_key :: string
  minio_secret_key :: string
  s3_file_prefix :: string
  file_extensions :: "string list"
  max_files :: int
  download_dir :: string

text \<open>An entry of \<^verbatim>\<open>downloaded_files\<close>.\<close>

record downloaded =
  d_file_path :: string
  d_key :: string
  d_size :: int
  d_last_modified :: string

text \<open>
  The variables of the two loops, \<^verbatim>\<open>downloaded_files\<close> and \<^verbatim>\<open>file_count\<close>, and a
  trace of what the loops did: the keys of the objects the inner loop's body was entered
  for, and the keys \<^verbatim>\<open>s3.download_file\<close> was called for.
\<close>

record provider_state =
  downloaded_files :: "downloaded list"
  file_count :: int
  visited :: "string list"
  attempted :: "string list"

text \<open>
  \<^verbatim>\<open>for obj in page['Contents']\<close>. The test of the limit stands in the \<^verbatim>\<open>try\<close> block,
  after the download and the increment; its \<^verbatim>\<open>break\<close> ends the recursion.
\<close>

fun page_loop :: "provider_env \<Rightarrow> provider_args \<Rightarrow> s3_object list \<Rightarrow> provider_state \<Rightarrow> provider_state" where
  "page_loop e a [] s = s"
| "page_loop e a (obj # objs) s =
     (let key = Key obj;
          s0 = s\<lparr>visited := visited s @ [key]\<rparr>
      in if \<not> list_ex (\<lambda>ext. endswith (lower key) (lower ext)) (file_extensions a)
         then page_loop e a objs s0
         else
           (let local_file_path = os_path_join (download_dir a) (os_path_basename key);
                s1 = s0\<lparr>attempted := attempted s0 @ [key]\<rparr>
            in case download_file e (bucket_name a) key local_file_path of
                 Some msg \<Rightarrow> page_loop e a objs s1
               | None \<Rightarrow>
                   (let s2 = s1\<lparr>downloaded_files := downloaded_files s1 @
                                   [\<lparr>d_file_path = local_file_path, d_key = key,
                                     d_size = Size obj, d_last_modified = LastModified obj\<rparr>],
                                 file_count := file_count s1 + 1\<rparr>
                    in if file_count s2 \<ge> max_files a then s2
                       else page_loop e a objs s2)))"

text \<open>\<^verbatim>\<open>for page in pages\<close>, with its own test of the limit after each page that has contents.\<close>

fun pages_loop :: "provider_env \<Rightarrow> provider_args \<Rightarrow> page list \<Rightarrow> provider_state \<Rightarrow> provider_state" where
  "pages_loop e a [] s = s"
| "pages_loop e a (None # pages) s = pages_loop e a pages s"
| "pages_loop e a (Some contents # pages) s =
     (let s' = page_loop e a contents s
      in if file_count s' \<ge> max_files a then s' else pages_loop e a pages s')"

definition provider_initial :: provider_state where
  "provider_initial = \<lparr>downloaded_files = [], file_count = 0, visited = [], attempted = []\<rparr>"

definition fetch :: "provider_env \<Rightarrow> provider_args \<Rightarrow> provider_state" where
  "fetch e a = pages_loop e a (paginate e (bucket_name a) (s3_file_prefix a)) provider_initial"

definition downloaded_json :: "downloaded \<Rightarrow> json" where
  "downloaded_json d =
     JObj [(''file_path'', JStr (d_file_path d)), (''key'', JStr (d_key d)),
           (''size'', JNum (d_size d)), (''last_modified'', JStr (d_last_modified d))]"

text \<open>
  Whether \<^verbatim>\<open>for page in pages\<close> ends because the pages are used up, and so asks the
  paginator for one page more than it yields, rather than by \<^verbatim>\<open>break\<close>.
\<close>

fun pages_exhausted :: "provider_env \<Rightarrow> provider_args \<Rightarrow> page list \<Rightarrow> provider_state \<Rightarrow> bool" where
  "pages_exhausted e a [] s = True"
| "pages_exhausted e a (None # pages) s = pages_exhausted e a pages s"
| "pages_exhausted e a (Some contents # pages) s =
     (let s' = page_loop e a contents s
      in if file_count s' \<ge> max_files a then False else pages_exhausted e a pages s')"

text \<open>The dict \<^verbatim>\<open>result\<close> that the Provider writes to \<^verbatim>\<open>output_path\<close> and returns.\<close>

definition provider_result :: "provider_args \<Rightarrow> downloaded list \<Rightarrow> json" where
  "provider_result a files =
     JObj [(''document_paths'', JList (map (\<lambda>doc. JStr (d_file_path doc)) files)),
           (''metadata'',
            JObj [(''bucket'', JStr (bucket_name a)),
                  (''endpoint'', JStr (minio_endpoint a)),
                  (''file_count'', JNum (int (length files))),
                  (''details'', JList (map downloaded_json files))])]"

text \<open>
  The whole function: the exception that leaves it, or the dict it has written.
  \<^verbatim>\<open>os.makedirs\<close> raises \<^verbatim>\<open>FileNotFoundError\<close> for an empty \<^verbatim>\<open>download_dir\<close>; an exception of
  the listing is met only when the loop asks for a page the paginator cannot give.
\<close>

definition s3_document_provider :: "provider_env \<Rightarrow> provider_args \<Rightarrow> exn + json" where
  "s3_document_provider e a =
     (if download_dir a = [] then Inl (FileNotFoundError ''No such file or directory'')
      else case os_makedirs e (download_dir a) of
        Some msg \<Rightarrow> Inl (Uncaught msg)
      | None \<Rightarrow>
          (case boto3_client e (minio_endpoint a) (minio_access_key a) (minio_secret_key a) of
             Some msg \<Rightarrow> Inl (Uncaught msg)
           | None \<Rightarrow>
               (let pages = paginate e (bucket_name a) (s3_file_prefix a)
                in case (if pages_exhausted e a pages provider_initial
                         then paginate_raises e (bucket_name a) (s3_file_prefix a) else None) of
                     Some msg \<Rightarrow> Inl (Uncaught msg)
                   | None \<Rightarrow> Inr (provider_result a (downloaded_files (fetch e a))))))"

section \<open>The local-files branch of \<^verbatim>\<open>run_local_pipeline\<close>\<close>

text \<open>
  A directory as \<^verbatim>\<open>pathlib\<close> shows it: for each entry its name, the string of its path
  (\<^verbatim>\<open>str(Path(dir) / name)\<close>) and whether it is a subdirectory. A directory that does not
  exist has no entries.
\<close>

record dir_entry =
  entry_name :: string
  entry_path :: string
  entry_is_dir :: bool

text \<open>
  \<open>scandir\<close> lists a directory; \<open>glob_magic dir pat\<close> stands for
  \<^verbatim>\<open>[str(p) for p in Path(dir).glob(pat)]\<close> for the patterns that are not decided below.
\<close>

record local_fs =
  scandir :: "string \<Rightarrow> dir_entry list"
  glob_magic :: "string \<Rightarrow> string \<Rightarrow> string list"

text \<open>An extension without the wildcard characters of a glob pattern and without a separator.\<close>

definition plain_extension :: "string \<Rightarrow> bool" where
  "plain_extension ext = list_all (\<lambda>c. c \<notin> set ''*?[/'') ext"

text \<open>
  \<^verbatim>\<open>[str(p) for p in Path(dir).glob("*" + ext)]\<close>. For a plain extension the pattern is one
  component, a star and literal characters: it selects, in the order of the listing, every
  entry of the directory, file or subdirectory, hidden or not, whose name ends with the
  extension, with the case of the letters as it is (POSIX).
\<close>

definition glob_star :: "local_fs \<Rightarrow> string \<Rightarrow> string \<Rightarrow> string list" where
  "glob_star fs dir ext =
     (if plain_extension ext
      then map entry_path (filter (\<lambda>en. endswith (entry_name en) ext) (scandir fs dir))
      else glob_magic fs dir (''*'' @ ext))"

text \<open>
  The branch raises \<^verbatim>\<open>ValueError\<close> when \<^verbatim>\<open>local_files_dir\<close> is \<^verbatim>\<open>None\<close> or empty;
  otherwise the result is the dict it writes to the Provider's output file.
\<close>

definition local_files_manifest ::
  "local_fs \<Rightarrow> string list \<Rightarrow> string option \<Rightarrow> exn + json" where
  "local_files_manifest fs extensions local_files_dir =
     (case local_files_dir of
        None \<Rightarrow> Inl (ValueError ''local_files_dir must be provided when use_local_files=True'')
      | Some dir \<Rightarrow>
          if dir = [] then
            Inl (ValueError ''local_files_dir must be provided when use_local_files=True'')
          else
            (let document_paths = concat (map (\<lambda>ext. glob_star fs dir ext) extensions)
             in Inr (JObj [(''document_paths'', JList (map JStr document_paths)),
                           (''metadata'',
                            JObj [(''source'', JStr ''local_files''),
                                  (''file_count'', JNum (int (length document_paths))),
                                  (''directory'', JStr dir)])])))"

text \<open>The keys of a dict, in order; a value that is no dict has none.\<close>

fun dict_keys :: "json \<Rightarrow> string list" where
  "dict_keys (JObj kvs) = map fst kvs"
| "dict_keys v = []"

section \<open>Notions used to state the properties\<close>

text \<open>The chunks that the chunk sequence of a document yields before it ends.\<close>

definition yielded :: "env \<Rightarrow> json \<Rightarrow> chunk list" where
  "yielded e file_path = (case convert e file_path of ConvertRaises msg \<Rightarrow> [] | Chunked chunks ending \<Rightarrow> chunks)"

text \<open>The claim's words: at least one of the chunk's items carries a text or paragraph label.\<close>

definition text_bearing :: "chunk \<Rightarrow> bool" where
  "text_bearing ch = (\<exists>c \<in> set (doc_items ch). label c = TEXT \<or> label c = PARAGRAPH)"

text \<open>The retained chunks of a run, each with the path of its document, in the order in which the run meets them.\<close>

definition retained :: "env \<Rightarrow> json list \<Rightarrow> (json \<times> chunk) list" where
  "retained e documents =
     concat (map (\<lambda>file_path. map (Pair file_path) (filter text_bearing (yielded e file_path))) documents)"

text \<open>The Chunk Records of a list of retained chunks, numbered from \<open>n + 1\<close> on.\<close>

fun numbered :: "nat \<Rightarrow> (json \<times> chunk) list \<Rightarrow> LlamaStackDocument list" where
  "numbered n [] = []"
| "numbered n ((file_path, ch) # xs) = make_document (Suc n) ch file_path # numbered (Suc n) xs"

text \<open>The number a decimal string denotes (the inverse of \<^verbatim>\<open>str\<close> on the counter).\<close>

definition digit_val :: "char \<Rightarrow> nat" where
  "digit_val c = of_char c - 48"

definition nat_of_str :: "string \<Rightarrow> nat" where
  "nat_of_str s = foldl (\<lambda>acc c. 10 * acc + digit_val c) 0 s"

text \<open>The exception, if any, that conversion and chunking raise for a document.\<close>

definition failure :: "env \<Rightarrow> json \<Rightarrow> string option" where
  "failure e file_path =
     (case convert e file_path of ConvertRaises msg \<Rightarrow> Some msg | Chunked chunks ending \<Rightarrow> ending)"

text \<open>The entries a list of documents contributes to \<^verbatim>\<open>processed_documents\<close> and to \<^verbatim>\<open>failed_documents\<close>.\<close>

definition processed_entries :: "env \<Rightarrow> json list \<Rightarrow> (json \<times> nat) list" where
  "processed_entries e documents =
     map (\<lambda>file_path. (file_path, length (filter text_bearing (yielded e file_path))))
       (filter (\<lambda>file_path. failure e file_path = None) documents)"

definition failed_entries :: "env \<Rightarrow> json list \<Rightarrow> (json \<times> string) list" where
  "failed_entries e documents =
     concat (map (\<lambda>file_path. case failure e file_path of None \<Rightarrow> [] | Some msg \<Rightarrow> [(file_path, msg)])
       documents)"

section \<open>An example run\<close>

text \<open>
  A manifest of four documents: the first converts to four chunks, three of them with a
  text or paragraph item; the second cannot be converted; the chunk sequence of the third
  yields one text chunk and then raises; the fourth converts to one text chunk. The
  registration call raises and the insertion call returns.
\<close>

definition text_chunk :: "string \<Rightarrow> chunk" where
  "text_chunk t = \<lparr>chunk_text = t, doc_items = [\<lparr>label = TEXT, self_ref = ''#/texts/0''\<rparr>]\<rparr>"

definition table_chunk :: "string \<Rightarrow> chunk" where
  "table_chunk t = \<lparr>chunk_text = t, doc_items = [\<lparr>label = OtherLabel ''table'', self_ref = ''#/tables/0''\<rparr>]\<rparr>"

definition mixed_chunk :: "string \<Rightarrow> chunk" where
  "mixed_chunk t =
     \<lparr>chunk_text = t,
      doc_items = [\<lparr>label = OtherLabel ''caption'', self_ref = ''#/texts/1''\<rparr>,
                   \<lparr>label = PARAGRAPH, self_ref = ''#/texts/2''\<rparr>]\<rparr>"

definition example_convert :: "json \<Rightarrow> conversion" where
  "example_convert file_path =
     (if file_path = JStr ''a.pdf'' then
        Chunked [text_chunk ''a1'', table_chunk ''a2'', text_chunk ''a3'', mixed_chunk ''a4''] None
      else if file_path = JStr ''b.pdf'' then ConvertRaises ''cannot convert''
      else if file_path = JStr ''c.pdf'' then Chunked [text_chunk ''c1''] (Some ''chunker failed'')
      else Chunked [text_chunk ''d1''] None)"

definition example_documents :: "json list" where
  "example_documents = [JStr ''a.pdf'', JStr ''b.pdf'', JStr ''c.pdf'', JStr ''d.pdf'']"

definition example_env :: env where
  "example_env =
     \<lparr>os_path_isfile = (\<lambda>p. p = ''manifest.json''),
      load_json = (\<lambda>p. Loaded (JObj [(''documents'', JList example_documents)])),
      convert = example_convert,
      remote = (\<lambda>c. case c of Register v m d p \<Rightarrow> Some ''connection refused'' | Insert ds v n \<Rightarrow> None)\<rparr>"

definition example_args :: args where
  "example_args =
     \<lparr>document_path = ''manifest.json'', metrics_path = ''metrics.json'',
      llama_stack_url = ''http://localhost:8321'', embedding_model = ''all-MiniLM-L6-v2'',
      embedding_dimension = 384, provider_id = ''pgvector'', vector_db_id = ''pgvector''\<rparr>"

text \<open>The example run with a manifest whose \<^verbatim>\<open>document_paths\<close> is the number 5.\<close>

definition number_manifest_env :: env where
  "number_manifest_env =
     example_env\<lparr>load_json := (\<lambda>p. Loaded (JObj [(''document_paths'', JNum 5)]))\<rparr>"

text \<open>
  An example bucket: five objects on two pages (with a page without contents between
  them), two of them PDF files, and every download succeeds; and an example directory
  with four files and a subdirectory whose name ends in \<^verbatim>\<open>.pdf\<close>.
\<close>

definition example_object :: "string \<Rightarrow> s3_object" where
  "example_object k = \<lparr>Key = k, Size = 1024, LastModified = ''2025-01-01T00:00:00+00:00''\<rparr>"

definition example_listing :: "page list" where
  "example_listing =
     [Some [example_object ''docs/readme.txt'', example_object ''docs/a.pdf'',
            example_object ''img/x.png''],
      None,
      Some [example_object ''docs/B.PDF'', example_object ''notes.md'']]"

definition example_provider_env :: provider_env where
  "example_provider_env =
     \<lparr>paginate = (\<lambda>bucket prefix. example_listing), download_file = (\<lambda>bucket k path. None),
      os_makedirs = (\<lambda>dir. None), boto3_client = (\<lambda>endpoint access_key secret_key. None),
      paginate_raises = (\<lambda>bucket prefix. None)\<rparr>"

definition example_provider_args :: provider_args where
  "example_provider_args =
     \<lparr>output_path = ''out.json'', bucket_name = ''documents'',
      minio_endpoint = ''http://localhost:9000'', minio_access_key = ''minioadmin'',
      minio_secret_key = ''minioadmin'', s3_file_prefix = [], file_extensions = [''.pdf''],
      max_files = 1, download_dir = ''/tmp/documents''\<rparr>"

definition example_entry :: "string \<Rightarrow> string \<Rightarrow> bool \<Rightarrow> dir_entry" where
  "example_entry dir name is_dir =
     \<lparr>entry_name = name, entry_path = dir @ ''/'' @ name, entry_is_dir = is_dir\<rparr>"

definition example_fs :: local_fs where
  "example_fs =
     \<lparr>scandir = (\<lambda>dir. if dir = ''docs'' then
                  [example_entry dir ''a.pdf'' False, example_entry dir ''notes.txt'' False,
                   example_entry dir ''archive.pdf'' True, example_entry dir ''readme.md'' False,
                   example_entry dir ''B.PDF'' False]
                else []),
      glob_magic = (\<lambda>dir pat. [])\<rparr>"

text \<open>The keys of the \<^verbatim>\<open>metadata\<close> object of a manifest.\<close>

definition metadata_keys :: "json \<Rightarrow> string list" where
  "metadata_keys manifest =
     (case dict_lookup manifest ''metadata'' of None \<Rightarrow> [] | Some md \<Rightarrow> dict_keys md)"




text \<open>The manifest of the example directory, asked for PDF and text files.\<close>

definition example_local_manifest :: json where
  "example_local_manifest =
     JObj [(''document_paths'',
            JList [JStr ''docs/a.pdf'', JStr ''docs/archive.pdf'', JStr ''docs/notes.txt'']),
           (''metadata'', JObj [(''source'', JStr ''local_files''), (''file_count'', JNum 3),
                                (''directory'', JStr ''docs'')])]"

section \<open>The conversion loop\<close>

lemma has_text_item_iff: "has_text_item = text_bearing"
  by (rule ext) (auto simp: has_text_item_def text_bearing_def list_ex_iff)

lemma numbered_Cons: "numbered n (x # xs) = make_document (Suc n) (snd x) (fst x) # numbered (Suc n) xs"
  by (cases x) simp

lemma numbered_append: "numbered n (xs @ ys) = numbered n xs @ numbered (n + length xs) ys"
  by (induction xs arbitrary: n) (simp_all add: numbered_Cons)

lemma length_numbered [simp]: "length (numbered n xs) = length xs"
  by (induction n xs rule: numbered.induct) simp_all

lemma numbered_nth:
  "k < length xs \<Longrightarrow>
     numbered n xs ! k = make_document (Suc (n + k)) (snd (xs ! k)) (fst (xs ! k))"
proof (induction n xs arbitrary: k rule: numbered.induct)
  case (1 n)
  then show ?case by simp
next
  case (2 n file_path ch xs)
  show ?case
  proof (cases k)
    case 0
    then show ?thesis by simp
  next
    case (Suc j)
    with 2 show ?thesis by simp
  qed
qed

lemma numbered_ids:
  "map document_id (numbered n xs) = map (\<lambda>k. ''doc-'' @ str_nat k) [Suc n..<Suc n + length xs]"
  by (rule nth_equalityI) (simp_all add: numbered_nth make_document_def del: upt_Suc)

lemma numbered_content: "map content (numbered n xs) = map (\<lambda>x. chunk_text (snd x)) xs"
  by (induction n xs rule: numbered.induct) (simp_all add: make_document_def)

lemma numbered_metadata: "map metadata (numbered n xs) = map (\<lambda>x. [(''source'', fst x)]) xs"
  by (induction n xs rule: numbered.induct) (simp_all add: make_document_def)

lemma chunk_loop_eq:
  "chunk_loop fp chunks (s, c) =
     (s\<lparr>counter_i := counter_i s + length (filter text_bearing chunks),
        llama_documents := llama_documents s @
           numbered (counter_i s) (map (Pair fp) (filter text_bearing chunks))\<rparr>,
      c + length (filter text_bearing chunks))"
proof (induction chunks arbitrary: s c)
  case Nil
  show ?case by simp
next
  case (Cons ch chunks)
  show ?case
    by (simp add: Cons.IH numbered_Cons has_text_item_iff)
qed

lemma process_document_llama:
  "llama_documents (process_document e fp s) =
     llama_documents s @ numbered (counter_i s) (map (Pair fp) (filter text_bearing (yielded e fp)))"
  by (simp add: process_document_def yielded_def chunk_loop_eq split: conversion.splits option.splits)

lemma process_document_counter:
  "counter_i (process_document e fp s) = counter_i s + length (filter text_bearing (yielded e fp))"
  by (simp add: process_document_def yielded_def chunk_loop_eq split: conversion.splits option.splits)

lemma process_documents_llama:
  "llama_documents (process_documents e docs s) = llama_documents s @ numbered (counter_i s) (retained e docs)
   \<and> counter_i (process_documents e docs s) = counter_i s + length (retained e docs)"
proof (induction docs arbitrary: s)
  case Nil
  show ?case by (simp add: retained_def)
next
  case (Cons fp docs)
  have r: "retained e (fp # docs) = map (Pair fp) (filter text_bearing (yielded e fp)) @ retained e docs"
    by (simp add: retained_def)
  show ?case
    by (simp add: Cons.IH r process_document_llama process_document_counter numbered_append add.assoc)
qed

lemma process_document_processed:
  "processed_documents (process_document e fp s) = processed_documents s @ processed_entries e [fp]"
  by (simp add: process_document_def processed_entries_def failure_def yielded_def chunk_loop_eq
      split: conversion.splits option.splits)

lemma process_document_failed:
  "failed_documents (process_document e fp s) = failed_documents s @ failed_entries e [fp]"
  by (simp add: process_document_def failed_entries_def failure_def yielded_def chunk_loop_eq
      split: conversion.splits option.splits)

lemma processed_entries_Cons:
  "processed_entries e (fp # docs) = processed_entries e [fp] @ processed_entries e docs"
  by (simp add: processed_entries_def)

lemma failed_entries_Cons:
  "failed_entries e (fp # docs) = failed_entries e [fp] @ failed_entries e docs"
  by (simp add: failed_entries_def)

lemma process_documents_processed:
  "processed_documents (process_documents e docs s) = processed_documents s @ processed_entries e docs"
proof (induction docs arbitrary: s)
  case Nil
  show ?case by (simp add: processed_entries_def)
next
  case (Cons fp docs)
  show ?case
    by (simp add: Cons.IH process_document_processed processed_entries_Cons [of e fp docs])
qed

lemma process_documents_failed:
  "failed_documents (process_documents e docs s) = failed_documents s @ failed_entries e docs"
proof (induction docs arbitrary: s)
  case Nil
  show ?case by (simp add: failed_entries_def)
next
  case (Cons fp docs)
  show ?case
    by (simp add: Cons.IH process_document_failed failed_entries_Cons [of e fp docs])
qed

lemma entries_length:
  "length (processed_entries e docs) + length (failed_entries e docs) = length docs"
  by (induction docs) (simp_all add: processed_entries_def failed_entries_def split: option.splits)

lemma processed_entries_files:
  "map fst (processed_entries e documents) = filter (\<lambda>file_path. failure e file_path = None) documents"
  by (simp add: processed_entries_def comp_def)

lemma failed_entries_files:
  "map fst (failed_entries e documents) = filter (\<lambda>file_path. failure e file_path \<noteq> None) documents"
  by (induction documents) (auto simp: failed_entries_def split: option.splits)

lemma script_chunk_loop_eq:
  "script_chunk_loop fp chunks (docs, n) =
     (docs @ numbered n (map (Pair fp) (filter text_bearing chunks)),
      n + length (filter text_bearing chunks))"
  by (induction chunks arbitrary: docs n) (simp_all add: numbered_Cons has_text_item_iff)

lemma script_documents_eq:
  "script_documents e documents (docs, n) =
     (docs @ numbered n (retained e documents), n + length (retained e documents))"
proof (induction documents arbitrary: docs n)
  case Nil
  show ?case by (simp add: retained_def)
next
  case (Cons fp documents)
  have r: "retained e (fp # documents) = map (Pair fp) (filter text_bearing (yielded e fp)) @ retained e documents"
    by (simp add: retained_def)
  show ?case
    by (simp add: script_document_def yielded_def script_chunk_loop_eq Cons.IH r numbered_append add.assoc
        split: conversion.splits)
qed

section \<open>The ids as decimal numbers\<close>

lemma digit_val_digit_char: "d < 10 \<Longrightarrow> digit_val (digit_char d) = d"
  by (simp add: digit_val_def digit_char_def)

lemma nat_of_str_snoc: "nat_of_str (s @ [c]) = 10 * nat_of_str s + digit_val c"
  by (simp add: nat_of_str_def)

lemma nat_of_str_str_nat: "nat_of_str (str_nat n) = n"
proof (induction n rule: str_nat.induct)
  case (1 n)
  show ?case
  proof (cases "n < 10")
    case True
    then show ?thesis
      by (simp add: str_nat.simps [of n] nat_of_str_def digit_val_digit_char)
  next
    case False
    with 1 show ?thesis
      by (simp add: str_nat.simps [of n] nat_of_str_snoc digit_val_digit_char)
  qed
qed

lemma str_nat_inj: "str_nat m = str_nat n \<Longrightarrow> m = n"
  by (metis nat_of_str_str_nat)

lemma numbered_numbers:
  "map (\<lambda>d. nat_of_str (drop 4 (document_id d))) (numbered n xs) = [Suc n..<Suc n + length xs]"
  by (rule nth_equalityI) (simp_all add: numbered_nth make_document_def nat_of_str_str_nat del: upt_Suc)

lemma numbered_distinct: "distinct (map document_id (numbered n xs))"
proof -
  have "inj_on (\<lambda>k. ''doc-'' @ str_nat k) (set [Suc n..<Suc n + length xs])"
    by (rule inj_onI) (simp add: str_nat_inj)
  then show ?thesis
    by (simp add: numbered_ids distinct_map del: upt_Suc)
qed

section \<open>The whole run\<close>

lemma ingest_eq:
  "ingest e a documents =
     \<lparr>returned = Inr (length (retained e documents)),
      calls = [(register_call a, remote e (register_call a)),
               (insert_call a (numbered 0 (retained e documents)),
                remote e (insert_call a (numbered 0 (retained e documents))))],
      files_written =
        [(metrics_path a,
          \<lparr>document_count = length documents,
           metrics_processed = processed_entries e documents,
           metrics_failed = failed_entries e documents,
           total_chunks = length (retained e documents),
           vector_db_registration = status_of (remote e (register_call a)),
           vector_db_insertion =
             status_of (remote e (insert_call a (numbered 0 (retained e documents))))\<rparr>)]\<rparr>"
  by (simp add: ingest_def Let_def process_documents_llama process_documents_processed
      process_documents_failed initial_state_def)

lemma component_resolved:
  "resolve_documents e (document_path a) = Inr v \<Longrightarrow> py_elements v = Some documents \<Longrightarrow>
     rag_docling_component e a = ingest e a documents"
  by (simp add: rag_docling_component_def)

lemma script_eq:
  "process_documents_to_vectordb e a documents =
     \<lparr>script_returned = length (retained e documents),
      script_calls = [(register_call a, remote e (register_call a)),
                      (insert_call a (numbered 0 (retained e documents)),
                       remote e (insert_call a (numbered 0 (retained e documents))))]\<rparr>"
  by (simp add: process_documents_to_vectordb_def script_documents_eq Let_def)

lemma resolve_documents_remote [simp]:
  "resolve_documents (e\<lparr>remote := r\<rparr>) path = resolve_documents e path"
  by (simp add: resolve_documents_def)

lemma retained_remote [simp]: "retained (e\<lparr>remote := r\<rparr>) documents = retained e documents"
  by (simp add: retained_def yielded_def)

lemma insert_call_neq_register_call [simp]: "insert_call a docs \<noteq> register_call a'"
  by (simp add: insert_call_def register_call_def)

lemma no_calls_unless_resolved:
  assumes "calls (rag_docling_component e a) \<noteq> []"
  obtains v documents where "resolve_documents e (document_path a) = Inr v"
    and "py_elements v = Some documents"
  using assms
  by (auto simp: rag_docling_component_def raises_def split: sum.splits option.splits)

section \<open>The example run, evaluated\<close>

lemma example_resolved:
  "resolve_documents example_env (document_path example_args) = Inr (JList example_documents)"
  by (simp add: resolve_documents_def example_env_def example_args_def endswith_def
      manifest_documents_def)

lemma example_py_elements: "py_elements (JList example_documents) = Some example_documents"
  by simp

lemma example_retained:
  "retained example_env example_documents =
     [(JStr ''a.pdf'', text_chunk ''a1''), (JStr ''a.pdf'', text_chunk ''a3''),
      (JStr ''a.pdf'', mixed_chunk ''a4''), (JStr ''c.pdf'', text_chunk ''c1''),
      (JStr ''d.pdf'', text_chunk ''d1'')]"
  by (simp add: retained_def example_documents_def example_env_def yielded_def example_convert_def
      text_bearing_def text_chunk_def table_chunk_def mixed_chunk_def)

lemma example_numbered:
  "numbered 0 (retained example_env example_documents) =
     [make_document 1 (text_chunk ''a1'') (JStr ''a.pdf''),
      make_document 2 (text_chunk ''a3'') (JStr ''a.pdf''),
      make_document 3 (mixed_chunk ''a4'') (JStr ''a.pdf''),
      make_document 4 (text_chunk ''c1'') (JStr ''c.pdf''),
      make_document 5 (text_chunk ''d1'') (JStr ''d.pdf'')]"
  by (simp add: example_retained numeral_eq_Suc)

lemma example_ids:
  "map document_id (numbered 0 (retained example_env example_documents)) =
     [''doc-1'', ''doc-2'', ''doc-3'', ''doc-4'', ''doc-5'']"
  by code_simp

section \<open>The document list\<close>




text \<open>
  C10. A manifest that is a dict with both keys gives the value under
  \<^verbatim>\<open>document_paths\<close>, whatever stands under \<^verbatim>\<open>documents\<close>. The shapes are tested in the
  order list, \<^verbatim>\<open>document_paths\<close>, \<^verbatim>\<open>documents\<close>, and the first that matches decides.
\<close>

theorem document_paths_takes_precedence:
  assumes "os_path_isfile e path"
    and "endswith path ''.json''"
    and "load_json e path = Loaded (JObj kvs)"
    and "map_of kvs ''document_paths'' = Some v"
    and "map_of kvs ''documents'' = Some w"
  shows "resolve_documents e path = Inr v
   \<and> manifest_documents (JList xs) path = JList xs
   \<and> (\<not> isinstance_list file_data \<longrightarrow> dict_lookup file_data ''document_paths'' = Some u \<longrightarrow>
        manifest_documents file_data path = u)
   \<and> (\<not> isinstance_list file_data \<longrightarrow> dict_lookup file_data ''document_paths'' = None \<longrightarrow>
        dict_lookup file_data ''documents'' = Some u \<longrightarrow> manifest_documents file_data path = u)"
  using assms by (simp add: resolve_documents_def manifest_documents_def)

text \<open>A manifest with both keys, \<^verbatim>\<open>documents\<close> first.\<close>

theorem document_paths_takes_precedence_witness:
  "os_path_isfile example_env ''manifest.json'' \<and> endswith ''manifest.json'' ''.json''
   \<and> map_of [(''documents'', JList [JStr ''b.pdf'']), (''document_paths'', JList [JStr ''a.pdf''])]
        ''document_paths'' = Some (JList [JStr ''a.pdf''])
   \<and> map_of [(''documents'', JList [JStr ''b.pdf'']), (''document_paths'', JList [JStr ''a.pdf''])]
        ''documents'' = Some (JList [JStr ''b.pdf''])
   \<and> resolve_documents
         (example_env\<lparr>load_json :=
            (\<lambda>p. Loaded (JObj [(''documents'', JList [JStr ''b.pdf'']),
                                (''document_paths'', JList [JStr ''a.pdf''])]))\<rparr>)
         ''manifest.json'' = Inr (JList [JStr ''a.pdf''])"
proof -
  let ?kvs = "[(''documents'', JList [JStr ''b.pdf'']), (''document_paths'', JList [JStr ''a.pdf''])]"
  let ?e = "example_env\<lparr>load_json := (\<lambda>p. Loaded (JObj ?kvs))\<rparr>"
  have a: "os_path_isfile ?e ''manifest.json''"
    by (simp add: example_env_def)
  have a': "os_path_isfile example_env ''manifest.json''"
    by (simp add: example_env_def)
  have b: "endswith ''manifest.json'' ''.json''"
    by (simp add: endswith_def)
  have c: "load_json ?e ''manifest.json'' = Loaded (JObj ?kvs)"
    by simp
  have d: "map_of ?kvs ''document_paths'' = Some (JList [JStr ''a.pdf''])"
    by simp
  have e: "map_of ?kvs ''documents'' = Some (JList [JStr ''b.pdf''])"
    by simp
  show ?thesis
    using document_paths_takes_precedence [OF a b c d e] a' b d e by simp
qed

text \<open>
  C9. When the input path names no existing file, the document list is empty (the path
  is not taken as a document): the run makes both remote calls, the insertion with no
  record, writes metrics with \<^verbatim>\<open>document_count\<close> 0, no processed and no failed document
  and \<^verbatim>\<open>total_chunks\<close> 0, and returns 0.
\<close>

theorem missing_input_is_an_empty_run:
  assumes "\<not> os_path_isfile e (document_path a)"
  shows "resolve_documents e (document_path a) = Inr (JList [])
   \<and> returned (rag_docling_component e a) = Inr 0
   \<and> (\<exists>m. files_written (rag_docling_component e a) = [(metrics_path a, m)]
         \<and> document_count m = 0 \<and> metrics_processed m = [] \<and> metrics_failed m = []
         \<and> total_chunks m = 0)
   \<and> (\<exists>r1 r2. calls (rag_docling_component e a) =
         [(register_call a, r1), (insert_call a [], r2)])"
proof -
  have r: "resolve_documents e (document_path a) = Inr (JList [])"
    using assms by (simp add: resolve_documents_def)
  have p: "py_elements (JList []) = Some []"
    by simp
  have "rag_docling_component e a = ingest e a []"
    using r p by (rule component_resolved)
  then show ?thesis
    by (simp add: r ingest_eq retained_def processed_entries_def failed_entries_def)
qed

text \<open>The example run on a path that names no file.\<close>

theorem missing_input_is_an_empty_run_witness:
  "\<not> os_path_isfile example_env ''absent.json''
   \<and> resolve_documents example_env ''absent.json'' = Inr (JList [])
   \<and> returned (rag_docling_component example_env (example_args\<lparr>document_path := ''absent.json''\<rparr>)) = Inr 0
   \<and> (\<exists>m. files_written (rag_docling_component example_env (example_args\<lparr>document_path := ''absent.json''\<rparr>))
           = [(''metrics.json'', m)]
         \<and> document_count m = 0 \<and> metrics_processed m = [] \<and> metrics_failed m = []
         \<and> total_chunks m = 0)"
proof -
  have h: "\<not> os_path_isfile example_env (document_path (example_args\<lparr>document_path := ''absent.json''\<rparr>))"
    by (simp add: example_env_def)
  have m: "metrics_path (example_args\<lparr>document_path := ''absent.json''\<rparr>) = ''metrics.json''"
    by (simp add: example_args_def)
  show ?thesis
    using missing_input_is_an_empty_run [OF h] h m by simp
qed

section \<open>Metrics, records and ids\<close>

text \<open>
  C1. Whenever step 2 yields a value that can be iterated (a list of \<open>N\<close> documents in
  particular), the metrics written have \<^verbatim>\<open>document_count\<close> \<open>N\<close>, and the entries of
  \<^verbatim>\<open>processed_documents\<close> and \<^verbatim>\<open>failed_documents\<close> together are \<open>N\<close>: every document
  contributes one entry, to \<^verbatim>\<open>processed_documents\<close> when conversion and chunking raise
  nothing and to \<^verbatim>\<open>failed_documents\<close> when they raise, in the order of the documents.
\<close>

theorem metrics_account_for_every_document:
  assumes "resolve_documents e (document_path a) = Inr v"
    and "py_elements v = Some documents"
  shows "\<exists>m. files_written (rag_docling_component e a) = [(metrics_path a, m)]
           \<and> document_count m = length documents
           \<and> length (metrics_processed m) + length (metrics_failed m) = length documents
           \<and> metrics_processed m = processed_entries e documents
           \<and> metrics_failed m = failed_entries e documents
           \<and> map fst (metrics_processed m) = filter (\<lambda>file_path. failure e file_path = None) documents
           \<and> map fst (metrics_failed m) = filter (\<lambda>file_path. failure e file_path \<noteq> None) documents"
  using assms
  by (simp add: component_resolved ingest_eq entries_length processed_entries_files
      failed_entries_files)

text \<open>The example run: four documents, two processed and two failed.\<close>

theorem metrics_account_for_every_document_witness:
  "resolve_documents example_env (document_path example_args) = Inr (JList example_documents)
   \<and> py_elements (JList example_documents) = Some example_documents
   \<and> (\<exists>m. files_written (rag_docling_component example_env example_args) = [(''metrics.json'', m)]
        \<and> document_count m = 4
        \<and> metrics_processed m = [(JStr ''a.pdf'', 3), (JStr ''d.pdf'', 1)]
        \<and> metrics_failed m = [(JStr ''b.pdf'', ''cannot convert''), (JStr ''c.pdf'', ''chunker failed'')])"
proof -
  have h: "py_elements (JList example_documents) = Some example_documents"
    by simp
  have p: "processed_entries example_env example_documents = [(JStr ''a.pdf'', 3), (JStr ''d.pdf'', 1)]"
    by (simp add: processed_entries_def example_documents_def example_env_def yielded_def failure_def
        example_convert_def text_bearing_def text_chunk_def table_chunk_def mixed_chunk_def)
  have f: "failed_entries example_env example_documents =
      [(JStr ''b.pdf'', ''cannot convert''), (JStr ''c.pdf'', ''chunker failed'')]"
    by (simp add: failed_entries_def example_documents_def example_env_def failure_def
        example_convert_def)
  have m: "metrics_path example_args = ''metrics.json''"
    by (simp add: example_args_def)
  have n: "length example_documents = 4"
    by (simp add: example_documents_def)
  show ?thesis
    using metrics_account_for_every_document [OF example_resolved h] example_resolved p f m n
    by auto
qed

text \<open>
  C2. The test of the loop holds for a chunk exactly when one of its items carries the
  label text or paragraph, and it depends on the labels of the items only. The records
  handed to the insertion call are those of the chunks that pass the test, among the chunks
  the chunker yields, in order, each with the text of its chunk and the path of its
  document; \<^verbatim>\<open>total_chunks\<close> counts the same chunks. The script's loop does the same.
\<close>

theorem chunk_kept_iff_text_or_paragraph:
  "has_text_item ch = (\<exists>c \<in> set (doc_items ch). label c = TEXT \<or> label c = PARAGRAPH)
   \<and> (set (map label (doc_items ch)) = set (map label (doc_items ch')) \<longrightarrow>
        has_text_item ch = has_text_item ch')
   \<and> retained e documents =
        concat (map (\<lambda>file_path. map (Pair file_path)
          (filter (\<lambda>ch. \<exists>c \<in> set (doc_items ch). label c = TEXT \<or> label c = PARAGRAPH)
             (yielded e file_path))) documents)
   \<and> map content (numbered 0 (retained e documents)) =
        map (\<lambda>x. chunk_text (snd x)) (retained e documents)
   \<and> map metadata (numbered 0 (retained e documents)) =
        map (\<lambda>x. [(''source'', fst x)]) (retained e documents)
   \<and> (resolve_documents e (document_path a) = Inr v \<longrightarrow> py_elements v = Some documents \<longrightarrow>
        (\<exists>r1 r2 m.
           calls (rag_docling_component e a) =
             [(register_call a, r1), (insert_call a (numbered 0 (retained e documents)), r2)]
           \<and> files_written (rag_docling_component e a) = [(metrics_path a, m)]
           \<and> total_chunks m = length (retained e documents)))
   \<and> (\<exists>r1 r2.
         script_calls (process_documents_to_vectordb e a documents) =
           [(register_call a, r1), (insert_call a (numbered 0 (retained e documents)), r2)]
         \<and> script_returned (process_documents_to_vectordb e a documents) =
             length (retained e documents))"
proof -
  have iff: "\<And>c. has_text_item c = (\<exists>x \<in> set (doc_items c). label x = TEXT \<or> label x = PARAGRAPH)"
    by (simp add: has_text_item_iff text_bearing_def)
  have labels: "set (map label (doc_items ch)) = set (map label (doc_items ch')) \<longrightarrow>
      has_text_item ch = has_text_item ch'"
  proof
    assume eq: "set (map label (doc_items ch)) = set (map label (doc_items ch'))"
    have "\<And>c. has_text_item c = (TEXT \<in> set (map label (doc_items c)) \<or> PARAGRAPH \<in> set (map label (doc_items c)))"
      unfolding iff set_map image_iff by metis
    with eq show "has_text_item ch = has_text_item ch'"
      by simp
  qed
  have ret: "retained e documents =
        concat (map (\<lambda>file_path. map (Pair file_path)
          (filter (\<lambda>ch. \<exists>c \<in> set (doc_items ch). label c = TEXT \<or> label c = PARAGRAPH)
             (yielded e file_path))) documents)"
  proof -
    have tb: "text_bearing = (\<lambda>ch. \<exists>c \<in> set (doc_items ch). label c = TEXT \<or> label c = PARAGRAPH)"
      by (rule ext) (simp add: text_bearing_def)
    show ?thesis
      by (simp add: retained_def tb)
  qed
  have run: "resolve_documents e (document_path a) = Inr v \<longrightarrow> py_elements v = Some documents \<longrightarrow>
        (\<exists>r1 r2 m.
           calls (rag_docling_component e a) =
             [(register_call a, r1), (insert_call a (numbered 0 (retained e documents)), r2)]
           \<and> files_written (rag_docling_component e a) = [(metrics_path a, m)]
           \<and> total_chunks m = length (retained e documents))"
    by (simp add: component_resolved ingest_eq)
  have script: "\<exists>r1 r2.
         script_calls (process_documents_to_vectordb e a documents) =
           [(register_call a, r1), (insert_call a (numbered 0 (retained e documents)), r2)]
         \<and> script_returned (process_documents_to_vectordb e a documents) =
             length (retained e documents)"
    by (simp add: script_eq)
  show ?thesis
    using iff [of ch] labels ret run script numbered_content [of 0 "retained e documents"]
      numbered_metadata [of 0 "retained e documents"]
    by blast
qed

text \<open>
  Two chunks with the same labels are treated alike, a table chunk is dropped, and the
  example run inserts the five text-bearing chunks of the six its chunker yields.
\<close>

theorem chunk_kept_iff_text_or_paragraph_witness:
  "set (map label (doc_items (mixed_chunk ''x''))) = set (map label (doc_items (mixed_chunk ''y'')))
   \<and> has_text_item (mixed_chunk ''x'') = has_text_item (mixed_chunk ''y'')
   \<and> has_text_item (mixed_chunk ''x'')
   \<and> \<not> has_text_item (table_chunk ''a2'')
   \<and> resolve_documents example_env (document_path example_args) = Inr (JList example_documents)
   \<and> py_elements (JList example_documents) = Some example_documents
   \<and> (\<exists>r1 r2 m.
         calls (rag_docling_component example_env example_args) =
           [(register_call example_args, r1),
            (insert_call example_args (numbered 0 (retained example_env example_documents)), r2)]
         \<and> files_written (rag_docling_component example_env example_args) =
             [(metrics_path example_args, m)]
         \<and> total_chunks m = 5)
   \<and> map content (numbered 0 (retained example_env example_documents)) =
       [''a1'', ''a3'', ''a4'', ''c1'', ''d1'']"
proof -
  have l: "set (map label (doc_items (mixed_chunk ''x''))) = set (map label (doc_items (mixed_chunk ''y'')))"
    by (simp add: mixed_chunk_def)
  have t: "has_text_item (mixed_chunk ''x'')" "\<not> has_text_item (table_chunk ''a2'')"
    by (simp_all add: has_text_item_def mixed_chunk_def table_chunk_def)
  have n: "length (retained example_env example_documents) = 5"
    by (simp add: example_retained)
  have c: "map (\<lambda>x. chunk_text (snd x)) (retained example_env example_documents) =
      [''a1'', ''a3'', ''a4'', ''c1'', ''d1'']"
    by (simp add: example_retained text_chunk_def mixed_chunk_def)
  show ?thesis
    using chunk_kept_iff_text_or_paragraph
      [of "mixed_chunk ''x''" "mixed_chunk ''y''" example_env example_documents example_args
        "JList example_documents"]
      l t n c example_resolved example_py_elements
    by auto
qed

text \<open>
  C3. The records handed to the insertion call carry the ids \<^verbatim>\<open>doc-1\<close>, \<^verbatim>\<open>doc-2\<close>, ...
  in the order in which the chunks were retained, over all documents of the run, whatever
  conversion and chunking do for each of them: the numbers are 1, 2, ..., strictly
  increasing, and the ids are pairwise distinct.
\<close>

theorem document_ids_count_up:
  assumes "resolve_documents e (document_path a) = Inr v"
    and "py_elements v = Some documents"
  shows "\<exists>docs r1 r2.
           calls (rag_docling_component e a) = [(register_call a, r1), (insert_call a docs, r2)]
           \<and> length docs = length (retained e documents)
           \<and> map content docs = map (\<lambda>x. chunk_text (snd x)) (retained e documents)
           \<and> map document_id docs = map (\<lambda>k. ''doc-'' @ str_nat k) [1..<Suc (length docs)]
           \<and> map (\<lambda>d. nat_of_str (drop 4 (document_id d))) docs = [1..<Suc (length docs)]
           \<and> sorted_wrt (<) (map (\<lambda>d. nat_of_str (drop 4 (document_id d))) docs)
           \<and> distinct (map document_id docs)"
proof -
  let ?docs = "numbered 0 (retained e documents)"
  have c: "calls (rag_docling_component e a) =
      [(register_call a, remote e (register_call a)), (insert_call a ?docs, remote e (insert_call a ?docs))]"
    using assms by (simp add: component_resolved ingest_eq)
  have ids: "map document_id ?docs = map (\<lambda>k. ''doc-'' @ str_nat k) [1..<Suc (length ?docs)]"
    using numbered_ids [of 0 "retained e documents"] by simp
  have nums: "map (\<lambda>d. nat_of_str (drop 4 (document_id d))) ?docs = [1..<Suc (length ?docs)]"
    using numbered_numbers [of 0 "retained e documents"] by simp
  have srt: "sorted_wrt (<) (map (\<lambda>d. nat_of_str (drop 4 (document_id d))) ?docs)"
    unfolding nums by (rule sorted_wrt_upt)
  show ?thesis
    using c ids nums srt numbered_content [of 0 "retained e documents"]
      numbered_distinct [of 0 "retained e documents"] length_numbered [of 0 "retained e documents"]
    by blast
qed

text \<open>
  The example run: the third document fails after its first chunk was retained, and the
  ids still run from \<^verbatim>\<open>doc-1\<close> to \<^verbatim>\<open>doc-5\<close>.
\<close>

theorem document_ids_count_up_witness:
  "resolve_documents example_env (document_path example_args) = Inr (JList example_documents)
   \<and> py_elements (JList example_documents) = Some example_documents
   \<and> failure example_env (JStr ''c.pdf'') = Some ''chunker failed''
   \<and> (\<exists>docs r1 r2.
         calls (rag_docling_component example_env example_args) =
           [(register_call example_args, r1), (insert_call example_args docs, r2)]
         \<and> map document_id docs = [''doc-1'', ''doc-2'', ''doc-3'', ''doc-4'', ''doc-5'']
         \<and> map content docs = [''a1'', ''a3'', ''a4'', ''c1'', ''d1'']
         \<and> distinct (map document_id docs))"
proof -
  have f: "failure example_env (JStr ''c.pdf'') = Some ''chunker failed''"
    by (simp add: failure_def example_env_def example_convert_def)
  obtain docs r1 r2 where
    c: "calls (rag_docling_component example_env example_args) =
          [(register_call example_args, r1), (insert_call example_args docs, r2)]"
    and d: "distinct (map document_id docs)"
    using document_ids_count_up [OF example_resolved example_py_elements] by blast
  have "calls (rag_docling_component example_env example_args) =
      [(register_call example_args, remote example_env (register_call example_args)),
       (insert_call example_args (numbered 0 (retained example_env example_documents)),
        remote example_env (insert_call example_args (numbered 0 (retained example_env example_documents))))]"
    by (simp add: component_resolved [OF example_resolved example_py_elements] ingest_eq)
  with c have e: "docs = numbered 0 (retained example_env example_documents)"
    by (simp add: insert_call_def)
  have i: "map document_id docs = [''doc-1'', ''doc-2'', ''doc-3'', ''doc-4'', ''doc-5'']"
    by (simp add: e example_ids)
  have t: "map content docs = [''a1'', ''a3'', ''a4'', ''c1'', ''d1'']"
    by (simp add: e example_numbered make_document_def text_chunk_def mixed_chunk_def)
  have "\<exists>docs r1 r2.
         calls (rag_docling_component example_env example_args) =
           [(register_call example_args, r1), (insert_call example_args docs, r2)]
         \<and> map document_id docs = [''doc-1'', ''doc-2'', ''doc-3'', ''doc-4'', ''doc-5'']
         \<and> map content docs = [''a1'', ''a3'', ''a4'', ''c1'', ''d1'']
         \<and> distinct (map document_id docs)"
    by (rule exI [of _ docs], rule exI [of _ r1], rule exI [of _ r2]) (simp add: c i t)
  then show ?thesis
    using example_resolved example_py_elements f by simp
qed

section \<open>Registration, insertion and the report\<close>

text \<open>
  C4. When the registration call of a run raises, the run still makes the insertion call,
  and the list it hands over is \<^verbatim>\<open>llama_documents\<close> as the loop over the documents of the
  run has left it: the records of all retained chunks, in order, with their ids, texts and
  sources. It is the list the run inserts when the registration returns. The metrics hold
  the failure and its message under \<^verbatim>\<open>vector_db_registration\<close>, and the run returns the
  number of records.
\<close>

theorem registration_failure_recorded_insertion_attempted:
  assumes "(Register vid model dim pid, Some msg) \<in> set (calls (rag_docling_component e a))"
  shows "\<exists>v documents m res.
           resolve_documents e (document_path a) = Inr v
           \<and> py_elements v = Some documents
           \<and> calls (rag_docling_component e a) =
               [(Register (vector_db_id a) (embedding_model a) (embedding_dimension a) (provider_id a),
                 Some msg),
                (Insert (llama_documents (process_documents e documents initial_state))
                   (vector_db_id a) 512, res)]
           \<and> llama_documents (process_documents e documents initial_state) =
               numbered 0 (retained e documents)
           \<and> files_written (rag_docling_component e a) = [(metrics_path a, m)]
           \<and> vector_db_registration m = Failed msg
           \<and> vector_db_insertion m = status_of res
           \<and> total_chunks m = length (retained e documents)
           \<and> returned (rag_docling_component e a) = Inr (length (retained e documents))
           \<and> calls (rag_docling_component (e\<lparr>remote := (remote e)(register_call a := None)\<rparr>) a) =
               [(Register (vector_db_id a) (embedding_model a) (embedding_dimension a) (provider_id a),
                 None),
                (Insert (llama_documents (process_documents e documents initial_state))
                   (vector_db_id a) 512, res)]"
proof -
  from assms have "calls (rag_docling_component e a) \<noteq> []"
    by auto
  then obtain v documents where r: "resolve_documents e (document_path a) = Inr v"
    and p: "py_elements v = Some documents"
    by (rule no_calls_unless_resolved)
  let ?docs = "numbered 0 (retained e documents)"
  let ?e' = "e\<lparr>remote := (remote e)(register_call a := None)\<rparr>"
  have acc: "llama_documents (process_documents e documents initial_state) = ?docs"
    by (simp add: process_documents_llama initial_state_def)
  have run: "rag_docling_component e a = ingest e a documents"
    using r p by (rule component_resolved)
  have reg: "remote e (register_call a) = Some msg"
    using assms by (auto simp: run ingest_eq insert_call_def)
  have run': "rag_docling_component ?e' a = ingest ?e' a documents"
    using r p by (simp add: component_resolved)
  have ins: "remote ?e' (insert_call a ?docs) = remote e (insert_call a ?docs)"
    by simp
  let ?m = "\<lparr>document_count = length documents,
             metrics_processed = processed_entries e documents,
             metrics_failed = failed_entries e documents,
             total_chunks = length (retained e documents),
             vector_db_registration = Failed msg,
             vector_db_insertion = status_of (remote e (insert_call a ?docs))\<rparr>"
  have c: "calls (rag_docling_component e a) =
      [(Register (vector_db_id a) (embedding_model a) (embedding_dimension a) (provider_id a), Some msg),
       (Insert ?docs (vector_db_id a) 512, remote e (insert_call a ?docs))]"
    using reg by (simp add: run ingest_eq register_call_def insert_call_def)
  have c': "calls (rag_docling_component ?e' a) =
      [(Register (vector_db_id a) (embedding_model a) (embedding_dimension a) (provider_id a), None),
       (Insert ?docs (vector_db_id a) 512, remote e (insert_call a ?docs))]"
    using ins by (simp add: run' ingest_eq) (simp add: register_call_def insert_call_def)
  have f: "files_written (rag_docling_component e a) = [(metrics_path a, ?m)]"
    by (simp add: run ingest_eq reg)
  have t: "returned (rag_docling_component e a) = Inr (length (retained e documents))"
    by (simp add: run ingest_eq)
  show ?thesis
    by (rule exI [of _ v], rule exI [of _ documents], rule exI [of _ ?m],
        rule exI [of _ "remote e (insert_call a ?docs)"])
      (simp add: r p acc c c' f t)
qed

text \<open>The example run, whose registration call raises: the five records are inserted.\<close>

theorem registration_failure_recorded_insertion_attempted_witness:
  "(Register ''pgvector'' ''all-MiniLM-L6-v2'' 384 ''pgvector'', Some ''connection refused'')
     \<in> set (calls (rag_docling_component example_env example_args))
   \<and> (\<exists>m res.
         calls (rag_docling_component example_env example_args) =
           [(Register ''pgvector'' ''all-MiniLM-L6-v2'' 384 ''pgvector'', Some ''connection refused''),
            (Insert (numbered 0 (retained example_env example_documents)) ''pgvector'' 512, res)]
         \<and> files_written (rag_docling_component example_env example_args) = [(''metrics.json'', m)]
         \<and> vector_db_registration m = Failed ''connection refused''
         \<and> total_chunks m = 5)
   \<and> map content (numbered 0 (retained example_env example_documents)) =
       [''a1'', ''a3'', ''a4'', ''c1'', ''d1'']
   \<and> map document_id (numbered 0 (retained example_env example_documents)) =
       [''doc-1'', ''doc-2'', ''doc-3'', ''doc-4'', ''doc-5'']"
proof -
  have run: "rag_docling_component example_env example_args = ingest example_env example_args example_documents"
    using example_resolved example_py_elements by (rule component_resolved)
  have reg: "remote example_env (register_call example_args) = Some ''connection refused''"
    by (simp add: example_env_def register_call_def)
  have a: "vector_db_id example_args = ''pgvector''" "embedding_model example_args = ''all-MiniLM-L6-v2''"
    "embedding_dimension example_args = 384" "provider_id example_args = ''pgvector''"
    "metrics_path example_args = ''metrics.json''"
    by (simp_all add: example_args_def)
  have h: "(Register ''pgvector'' ''all-MiniLM-L6-v2'' 384 ''pgvector'', Some ''connection refused'')
     \<in> set (calls (rag_docling_component example_env example_args))"
    using reg by (simp add: run ingest_eq register_call_def a)
  have n: "length (retained example_env example_documents) = 5"
    by (simp add: example_retained)
  obtain v documents m res where
    r: "resolve_documents example_env (document_path example_args) = Inr v"
    and p: "py_elements v = Some documents"
    and c: "calls (rag_docling_component example_env example_args) =
          [(Register (vector_db_id example_args) (embedding_model example_args)
              (embedding_dimension example_args) (provider_id example_args), Some ''connection refused''),
           (Insert (llama_documents (process_documents example_env documents initial_state))
              (vector_db_id example_args) 512, res)]"
    and l: "llama_documents (process_documents example_env documents initial_state) =
          numbered 0 (retained example_env documents)"
    and f: "files_written (rag_docling_component example_env example_args) = [(metrics_path example_args, m)]"
    and g: "vector_db_registration m = Failed ''connection refused''"
    and t: "total_chunks m = length (retained example_env documents)"
    using registration_failure_recorded_insertion_attempted [OF h] by blast
  from r have "v = JList example_documents"
    using example_resolved by simp
  with p have d: "documents = example_documents"
    by simp
  have "\<exists>m res.
         calls (rag_docling_component example_env example_args) =
           [(Register ''pgvector'' ''all-MiniLM-L6-v2'' 384 ''pgvector'', Some ''connection refused''),
            (Insert (numbered 0 (retained example_env example_documents)) ''pgvector'' 512, res)]
         \<and> files_written (rag_docling_component example_env example_args) = [(''metrics.json'', m)]
         \<and> vector_db_registration m = Failed ''connection refused''
         \<and> total_chunks m = 5"
    using c l f g t by (rule_tac x = m in exI, rule_tac x = res in exI) (simp add: d a n)
  moreover have "map content (numbered 0 (retained example_env example_documents)) =
       [''a1'', ''a3'', ''a4'', ''c1'', ''d1'']"
    by (simp add: example_numbered make_document_def text_chunk_def mixed_chunk_def)
  ultimately show ?thesis
    using h example_ids by simp
qed

text \<open>
  C6, as stated, fails: a manifest \<^verbatim>\<open>{"document_paths": 5}\<close> makes \<^verbatim>\<open>len(documents)\<close>
  raise \<^verbatim>\<open>TypeError\<close> before any remote call; nothing is written and nothing is returned.
\<close>

theorem metrics_missing_when_documents_has_no_length:
  "resolve_documents number_manifest_env (document_path example_args) = Inr (JNum 5)
   \<and> returned (rag_docling_component number_manifest_env example_args) = Inl TypeError
   \<and> calls (rag_docling_component number_manifest_env example_args) = []
   \<and> files_written (rag_docling_component number_manifest_env example_args) = []"
  by (simp add: rag_docling_component_def resolve_documents_def number_manifest_env_def
      example_env_def example_args_def endswith_def manifest_documents_def raises_def)

text \<open>
  C6, amended. Whenever step 2 yields a value that has a length (a list, a string or a
  dict), whatever the registration and the insertion call do, the run writes the metrics
  once, to the metrics path, after both calls, and returns the number of records, which is
  \<^verbatim>\<open>total_chunks\<close> and the length of the list handed to the insertion call.
\<close>

theorem metrics_written_once_and_total_returned:
  assumes "resolve_documents e (document_path a) = Inr v"
    and "py_elements v = Some documents"
  shows "\<exists>m docs.
           calls (rag_docling_component e a) =
             [(register_call a, remote e (register_call a)),
              (insert_call a docs, remote e (insert_call a docs))]
           \<and> files_written (rag_docling_component e a) = [(metrics_path a, m)]
           \<and> vector_db_registration m = status_of (remote e (register_call a))
           \<and> vector_db_insertion m = status_of (remote e (insert_call a docs))
           \<and> total_chunks m = length docs
           \<and> returned (rag_docling_component e a) = Inr (length docs)
           \<and> length docs = length (retained e documents)"
proof -
  let ?m = "snd (hd (files_written (rag_docling_component e a)))"
  have run: "rag_docling_component e a = ingest e a documents"
    using assms by (rule component_resolved)
  show ?thesis
    by (rule exI [of _ ?m], rule exI [of _ "numbered 0 (retained e documents)"])
      (simp add: run ingest_eq)
qed

text \<open>The example run: registration fails, insertion succeeds, five records.\<close>

theorem metrics_written_once_and_total_returned_witness:
  "resolve_documents example_env (document_path example_args) = Inr (JList example_documents)
   \<and> py_elements (JList example_documents) = Some example_documents
   \<and> (\<exists>m. files_written (rag_docling_component example_env example_args) = [(''metrics.json'', m)]
         \<and> vector_db_registration m = Failed ''connection refused''
         \<and> vector_db_insertion m = Success
         \<and> total_chunks m = 5)
   \<and> returned (rag_docling_component example_env example_args) = Inr 5"
proof -
  have n: "length (retained example_env example_documents) = 5"
    by (simp add: example_retained)
  have reg: "remote example_env (register_call example_args) = Some ''connection refused''"
    by (simp add: example_env_def register_call_def)
  have ins: "\<And>docs. remote example_env (insert_call example_args docs) = None"
    by (simp add: example_env_def insert_call_def)
  have m: "metrics_path example_args = ''metrics.json''"
    by (simp add: example_args_def)
  show ?thesis
    using metrics_written_once_and_total_returned [OF example_resolved example_py_elements]
      example_resolved n reg ins m
    by auto
qed

section \<open>The Provider's limit\<close>

text \<open>\<^verbatim>\<open>file_count\<close> is the number of entries of \<^verbatim>\<open>downloaded_files\<close>.\<close>

lemma page_loop_count:
  "file_count s = int (length (downloaded_files s)) \<Longrightarrow>
     file_count (page_loop e a objs s) = int (length (downloaded_files (page_loop e a objs s)))"
  by (induction objs arbitrary: s) (auto simp: Let_def split: option.splits)

lemma pages_loop_count:
  "file_count s = int (length (downloaded_files s)) \<Longrightarrow>
     file_count (pages_loop e a pages s) = int (length (downloaded_files (pages_loop e a pages s)))"
  by (induction e a pages s rule: pages_loop.induct) (auto simp: Let_def page_loop_count)

text \<open>Started below the limit, the loops end at or below it.\<close>

lemma page_loop_bound:
  "file_count s < max_files a \<Longrightarrow> file_count (page_loop e a objs s) \<le> max_files a"
  by (induction objs arbitrary: s) (auto simp: Let_def split: option.splits)

lemma pages_loop_bound:
  "file_count s < max_files a \<Longrightarrow> file_count (pages_loop e a pages s) \<le> max_files a"
proof (induction e a pages s rule: pages_loop.induct)
  case (1 e a s)
  then show ?case by simp
next
  case (2 e a pages s)
  then show ?case by simp
next
  case (3 e a contents pages s)
  then show ?case
    using page_loop_bound [of s a e contents] by (auto simp: Let_def)
qed

text \<open>With a limit of at least 1, at most \<^verbatim>\<open>max_files\<close> objects are downloaded.\<close>

lemma fetch_at_most_max_files:
  "1 \<le> max_files a \<Longrightarrow> int (length (downloaded_files (fetch e a))) \<le> max_files a"
  using pages_loop_bound [of provider_initial a e "paginate e (bucket_name a) (s3_file_prefix a)"]
    pages_loop_count [of provider_initial e a "paginate e (bucket_name a) (s3_file_prefix a)"]
  by (simp add: fetch_def provider_initial_def)

text \<open>
  When the loops end with the limit reached, the last object they looked at is the one
  whose download reached it: nothing after it was visited.
\<close>

lemma page_loop_stops:
  "file_count s < max_files a \<Longrightarrow> max_files a \<le> file_count (page_loop e a objs s) \<Longrightarrow>
     downloaded_files (page_loop e a objs s) \<noteq> []
     \<and> visited (page_loop e a objs s) \<noteq> []
     \<and> attempted (page_loop e a objs s) \<noteq> []
     \<and> last (visited (page_loop e a objs s)) = d_key (last (downloaded_files (page_loop e a objs s)))
     \<and> last (attempted (page_loop e a objs s)) = d_key (last (downloaded_files (page_loop e a objs s)))"
proof (induction objs arbitrary: s)
  case Nil
  then show ?case by simp
next
  case (Cons obj objs)
  show ?case
  proof (cases "list_ex (\<lambda>ext. endswith (lower (Key obj)) (lower ext)) (file_extensions a)")
    case False
    then show ?thesis
      using Cons.prems Cons.IH [of "s\<lparr>visited := visited s @ [Key obj]\<rparr>"]
      by (simp add: Let_def)
  next
    case True
    let ?path = "os_path_join (download_dir a) (os_path_basename (Key obj))"
    let ?s1 = "s\<lparr>visited := visited s @ [Key obj], attempted := attempted s @ [Key obj]\<rparr>"
    show ?thesis
    proof (cases "download_file e (bucket_name a) (Key obj) ?path")
      case (Some msg)
      then show ?thesis
        using True Cons.prems Cons.IH [of ?s1] by (simp add: Let_def)
    next
      case None
      let ?s2 = "?s1\<lparr>downloaded_files := downloaded_files ?s1 @
                     [\<lparr>d_file_path = ?path, d_key = Key obj, d_size = Size obj,
                       d_last_modified = LastModified obj\<rparr>],
                   file_count := file_count ?s1 + 1\<rparr>"
      show ?thesis
      proof (cases "max_files a \<le> file_count ?s2")
        case True
        then show ?thesis
          using \<open>list_ex _ _\<close> None by (simp add: Let_def)
      next
        case False
        then show ?thesis
          using \<open>list_ex _ _\<close> None Cons.prems Cons.IH [of ?s2] by (simp add: Let_def)
      qed
    qed
  qed
qed

lemma pages_loop_stops:
  "file_count s < max_files a \<Longrightarrow> max_files a \<le> file_count (pages_loop e a pages s) \<Longrightarrow>
     downloaded_files (pages_loop e a pages s) \<noteq> []
     \<and> visited (pages_loop e a pages s) \<noteq> []
     \<and> attempted (pages_loop e a pages s) \<noteq> []
     \<and> last (visited (pages_loop e a pages s)) = d_key (last (downloaded_files (pages_loop e a pages s)))
     \<and> last (attempted (pages_loop e a pages s)) = d_key (last (downloaded_files (pages_loop e a pages s)))"
proof (induction e a pages s rule: pages_loop.induct)
  case (1 e a s)
  then show ?case by simp
next
  case (2 e a pages s)
  then show ?case by simp
next
  case (3 e a contents pages s)
  show ?case
  proof (cases "max_files a \<le> file_count (page_loop e a contents s)")
    case True
    then show ?thesis
      using page_loop_stops [OF "3.prems"(1) True] by (simp add: Let_def)
  next
    case False
    then show ?thesis
      using "3.IH" "3.prems" by (simp add: Let_def)
  qed
qed

lemma fetch_stops_at_max_files:
  assumes "1 \<le> max_files a"
    and "max_files a \<le> int (length (downloaded_files (fetch e a)))"
  shows "int (length (downloaded_files (fetch e a))) = max_files a
     \<and> last (visited (fetch e a)) = d_key (last (downloaded_files (fetch e a)))
     \<and> last (attempted (fetch e a)) = d_key (last (downloaded_files (fetch e a)))"
proof -
  let ?pages = "paginate e (bucket_name a) (s3_file_prefix a)"
  have c: "file_count (fetch e a) = int (length (downloaded_files (fetch e a)))"
    using pages_loop_count [of provider_initial e a ?pages]
    by (simp add: fetch_def provider_initial_def)
  have lt: "file_count provider_initial < max_files a"
    using assms(1) by (simp add: provider_initial_def)
  have ge: "max_files a \<le> file_count (pages_loop e a ?pages provider_initial)"
    using assms(2) c by (simp add: fetch_def)
  show ?thesis
    using pages_loop_stops [OF lt ge] fetch_at_most_max_files [OF assms(1), of e] assms(2)
    by (simp add: fetch_def)
qed

text \<open>
  The scenario of the specification: five objects, two of them PDF files, a limit of 1. One
  file is downloaded, and the loop has looked at the first two objects only.
\<close>

lemma example_fetch:
  "fetch example_provider_env example_provider_args =
     \<lparr>downloaded_files =
        [\<lparr>d_file_path = ''/tmp/documents/a.pdf'', d_key = ''docs/a.pdf'', d_size = 1024,
          d_last_modified = ''2025-01-01T00:00:00+00:00''\<rparr>],
      file_count = 1, visited = [''docs/readme.txt'', ''docs/a.pdf''],
      attempted = [''docs/a.pdf'']\<rparr>"
  by code_simp

text \<open>
  C5. The limit is tested only after a successful download, so the claim holds for a limit
  of at least 1 (the three lemmas above) and fails for a limit of 0: on the example bucket
  with \<^verbatim>\<open>max_files = 0\<close> the Provider downloads one file.
\<close>

theorem one_file_fetched_when_max_files_is_zero:
  "max_files (example_provider_args\<lparr>max_files := 0\<rparr>) = 0
   \<and> map d_key (downloaded_files (fetch example_provider_env (example_provider_args\<lparr>max_files := 0\<rparr>)))
       = [''docs/a.pdf'']
   \<and> file_count (fetch example_provider_env (example_provider_args\<lparr>max_files := 0\<rparr>)) = 1"
  by code_simp

section \<open>The manifests of the two Provider variants\<close>

text \<open>The two example runs.\<close>

lemma example_local_run:
  "local_files_manifest example_fs [''.pdf'', ''.txt''] (Some ''docs'') = Inr example_local_manifest"
  by code_simp

lemma example_bucket_run:
  "s3_document_provider example_provider_env example_provider_args =
     Inr (provider_result example_provider_args
            [\<lparr>d_file_path = ''/tmp/documents/a.pdf'', d_key = ''docs/a.pdf'', d_size = 1024,
              d_last_modified = ''2025-01-01T00:00:00+00:00''\<rparr>])"
  by code_simp

text \<open>For plain extensions, the paths listed are those of the entries whose name ends with one of them.\<close>

lemma glob_star_plain:
  "plain_extension ext \<Longrightarrow>
     set (glob_star fs dir ext) = entry_path ` {en \<in> set (scandir fs dir). endswith (entry_name en) ext}"
  by (auto simp: glob_star_def)

lemma glob_star_all_plain:
  "list_all plain_extension exts \<Longrightarrow>
     set (concat (map (glob_star fs dir) exts)) =
       entry_path ` {en \<in> set (scandir fs dir). \<exists>ext \<in> set exts. endswith (entry_name en) ext}"
  by (auto simp: glob_star_plain list_all_iff)

text \<open>
  C8, as stated, fails. The metadata of the local-files manifest holds \<^verbatim>\<open>source\<close>,
  \<^verbatim>\<open>file_count\<close> and \<^verbatim>\<open>directory\<close> and no per-file details, where the metadata of the
  bucket variant's manifest holds \<^verbatim>\<open>bucket\<close>, \<^verbatim>\<open>endpoint\<close>, \<^verbatim>\<open>file_count\<close> and
  \<^verbatim>\<open>details\<close> and no \<^verbatim>\<open>source\<close>. And \<^verbatim>\<open>document_paths\<close> lists a subdirectory whose
  name ends with a requested extension, which is no file.
\<close>

theorem local_manifest_has_no_details:
  "local_files_manifest example_fs [''.pdf'', ''.txt''] (Some ''docs'') = Inr example_local_manifest
   \<and> metadata_keys example_local_manifest = [''source'', ''file_count'', ''directory'']
   \<and> dict_lookup example_local_manifest ''document_paths'' =
       Some (JList [JStr ''docs/a.pdf'', JStr ''docs/archive.pdf'', JStr ''docs/notes.txt''])
   \<and> \<lparr>entry_name = ''archive.pdf'', entry_path = ''docs/archive.pdf'', entry_is_dir = True\<rparr>
       \<in> set (scandir example_fs ''docs'')
   \<and> s3_document_provider example_provider_env example_provider_args =
       Inr (provider_result example_provider_args
              [\<lparr>d_file_path = ''/tmp/documents/a.pdf'', d_key = ''docs/a.pdf'', d_size = 1024,
                d_last_modified = ''2025-01-01T00:00:00+00:00''\<rparr>])
   \<and> metadata_keys
        (provider_result example_provider_args
           [\<lparr>d_file_path = ''/tmp/documents/a.pdf'', d_key = ''docs/a.pdf'', d_size = 1024,
             d_last_modified = ''2025-01-01T00:00:00+00:00''\<rparr>])
       = [''bucket'', ''endpoint'', ''file_count'', ''details'']"
  by code_simp

text \<open>
  C8, amended. The local-files variant writes a manifest exactly when it is given a
  directory (and raises \<^verbatim>\<open>ValueError\<close> otherwise). The manifest has the keys
  \<^verbatim>\<open>document_paths\<close> and \<^verbatim>\<open>metadata\<close>, as the bucket variant's has when that variant writes
  one; its metadata is \<^verbatim>\<open>source\<close> (\<^verbatim>\<open>local_files\<close>), \<^verbatim>\<open>file_count\<close> (the length of
  \<^verbatim>\<open>document_paths\<close>) and \<^verbatim>\<open>directory\<close>, where the bucket variant's is \<^verbatim>\<open>bucket\<close>,
  \<^verbatim>\<open>endpoint\<close>, \<^verbatim>\<open>file_count\<close> and \<^verbatim>\<open>details\<close>. \<^verbatim>\<open>document_paths\<close> lists the entries of
  the given directory, files and subdirectories, that match the requested extensions: for
  extensions without wildcard or separator characters, the paths listed are exactly those
  of the entries whose name ends with one of the extensions.
\<close>

theorem local_manifest_shape:
  "((\<exists>m. local_files_manifest fs exts local_files_dir = Inr m) =
      (\<exists>dir. local_files_dir = Some dir \<and> dir \<noteq> []))
   \<and> (local_files_manifest fs exts local_files_dir = Inr manifest \<longrightarrow>
        (\<exists>dir paths.
           local_files_dir = Some dir
           \<and> paths = concat (map (glob_star fs dir) exts)
           \<and> manifest =
               JObj [(''document_paths'', JList (map JStr paths)),
                     (''metadata'', JObj [(''source'', JStr ''local_files''),
                                          (''file_count'', JNum (int (length paths))),
                                          (''directory'', JStr dir)])]
           \<and> (list_all plain_extension exts \<longrightarrow>
                 set paths =
                   entry_path ` {en \<in> set (scandir fs dir).
                                  \<exists>ext \<in> set exts. endswith (entry_name en) ext}))
        \<and> dict_keys manifest = [''document_paths'', ''metadata'']
        \<and> metadata_keys manifest = [''source'', ''file_count'', ''directory''])
   \<and> (s3_document_provider e a = Inr bucket_manifest \<longrightarrow>
        dict_keys bucket_manifest = [''document_paths'', ''metadata'']
        \<and> metadata_keys bucket_manifest = [''bucket'', ''endpoint'', ''file_count'', ''details'']
        \<and> dict_lookup bucket_manifest ''document_paths'' =
            Some (JList (map (\<lambda>d. JStr (d_file_path d)) (downloaded_files (fetch e a)))))"
proof -
  have written: "(\<exists>m. local_files_manifest fs exts local_files_dir = Inr m) =
      (\<exists>dir. local_files_dir = Some dir \<and> dir \<noteq> [])"
    by (cases local_files_dir) (simp_all add: local_files_manifest_def Let_def)
  have local: "local_files_manifest fs exts local_files_dir = Inr manifest \<longrightarrow>
        (\<exists>dir paths.
           local_files_dir = Some dir
           \<and> paths = concat (map (glob_star fs dir) exts)
           \<and> manifest =
               JObj [(''document_paths'', JList (map JStr paths)),
                     (''metadata'', JObj [(''source'', JStr ''local_files''),
                                          (''file_count'', JNum (int (length paths))),
                                          (''directory'', JStr dir)])]
           \<and> (list_all plain_extension exts \<longrightarrow>
                 set paths =
                   entry_path ` {en \<in> set (scandir fs dir).
                                  \<exists>ext \<in> set exts. endswith (entry_name en) ext}))
        \<and> dict_keys manifest = [''document_paths'', ''metadata'']
        \<and> metadata_keys manifest = [''source'', ''file_count'', ''directory'']"
  proof
    assume m: "local_files_manifest fs exts local_files_dir = Inr manifest"
    then obtain dir where d: "local_files_dir = Some dir" and ne: "dir \<noteq> []"
      using written by auto
    let ?paths = "concat (map (glob_star fs dir) exts)"
    have eq: "manifest =
        JObj [(''document_paths'', JList (map JStr ?paths)),
              (''metadata'', JObj [(''source'', JStr ''local_files''),
                                   (''file_count'', JNum (int (length ?paths))),
                                   (''directory'', JStr dir)])]"
      using m d ne by (simp add: local_files_manifest_def Let_def)
    have keys: "dict_keys manifest = [''document_paths'', ''metadata'']"
      "metadata_keys manifest = [''source'', ''file_count'', ''directory'']"
      by (simp_all add: eq metadata_keys_def)
    have plain: "list_all plain_extension exts \<longrightarrow>
        set ?paths = entry_path ` {en \<in> set (scandir fs dir).
                                  \<exists>ext \<in> set exts. endswith (entry_name en) ext}"
      using glob_star_all_plain [of exts fs dir] by blast
    show "(\<exists>dir paths.
           local_files_dir = Some dir
           \<and> paths = concat (map (glob_star fs dir) exts)
           \<and> manifest =
               JObj [(''document_paths'', JList (map JStr paths)),
                     (''metadata'', JObj [(''source'', JStr ''local_files''),
                                          (''file_count'', JNum (int (length paths))),
                                          (''directory'', JStr dir)])]
           \<and> (list_all plain_extension exts \<longrightarrow>
                 set paths =
                   entry_path ` {en \<in> set (scandir fs dir).
                                  \<exists>ext \<in> set exts. endswith (entry_name en) ext}))
        \<and> dict_keys manifest = [''document_paths'', ''metadata'']
        \<and> metadata_keys manifest = [''source'', ''file_count'', ''directory'']"
      using d eq plain keys by blast
  qed
  have bucket: "s3_document_provider e a = Inr bucket_manifest \<longrightarrow>
        dict_keys bucket_manifest = [''document_paths'', ''metadata'']
        \<and> metadata_keys bucket_manifest = [''bucket'', ''endpoint'', ''file_count'', ''details'']
        \<and> dict_lookup bucket_manifest ''document_paths'' =
            Some (JList (map (\<lambda>d. JStr (d_file_path d)) (downloaded_files (fetch e a))))"
    by (auto simp: s3_document_provider_def provider_result_def metadata_keys_def Let_def
        split: if_splits option.splits)
  show ?thesis
    using written local bucket by blast
qed

text \<open>The example directory and the example bucket.\<close>

theorem local_manifest_shape_witness:
  "local_files_manifest example_fs [''.pdf'', ''.txt''] (Some ''docs'') = Inr example_local_manifest
   \<and> list_all plain_extension [''.pdf'', ''.txt'']
   \<and> s3_document_provider example_provider_env example_provider_args =
       Inr (provider_result example_provider_args
              [\<lparr>d_file_path = ''/tmp/documents/a.pdf'', d_key = ''docs/a.pdf'', d_size = 1024,
                d_last_modified = ''2025-01-01T00:00:00+00:00''\<rparr>])
   \<and> set (concat (map (glob_star example_fs ''docs'') [''.pdf'', ''.txt''])) =
       {''docs/a.pdf'', ''docs/archive.pdf'', ''docs/notes.txt''}
   \<and> metadata_keys example_local_manifest = [''source'', ''file_count'', ''directory'']
   \<and> metadata_keys
        (provider_result example_provider_args
           [\<lparr>d_file_path = ''/tmp/documents/a.pdf'', d_key = ''docs/a.pdf'', d_size = 1024,
             d_last_modified = ''2025-01-01T00:00:00+00:00''\<rparr>])
       = [''bucket'', ''endpoint'', ''file_count'', ''details'']"
proof -
  have p: "list_all plain_extension [''.pdf'', ''.txt'']"
    by code_simp
  have g: "concat (map (glob_star example_fs ''docs'') [''.pdf'', ''.txt'']) =
      [''docs/a.pdf'', ''docs/archive.pdf'', ''docs/notes.txt'']"
    by code_simp
  show ?thesis
    using local_manifest_shape
      [of example_fs "[''.pdf'', ''.txt'']" "Some ''docs''" example_local_manifest
        example_provider_env example_provider_args
        "provider_result example_provider_args
              [\<lparr>d_file_path = ''/tmp/documents/a.pdf'', d_key = ''docs/a.pdf'', d_size = 1024,
                d_last_modified = ''2025-01-01T00:00:00+00:00''\<rparr>]"]
      example_local_run example_bucket_run p g
    by auto
qed

end
